theory Spec2Isabelle
  imports Main "HOL-Library.Sublist"
begin

section \<open>Data model of \<^verbatim>\<open>src/lib/supabaseAuth.ts\<close>\<close>

text \<open>
  \<^verbatim>\<open>AuthUser.role\<close> is the string-literal union \<^verbatim>\<open>'user' | 'admin' | 'manager'\<close>.
  Record fields carry a short prefix, because the field names of the source
  (\<^verbatim>\<open>id\<close>, \<^verbatim>\<open>email\<close>, ...) are shared by several interfaces and \<^verbatim>\<open>id\<close> is a
  constant of HOL.
\<close>

datatype Role = RoleUser | RoleAdmin | RoleManager

record AuthUser =
  au_id :: string
  au_email :: string
  au_name :: string
  au_company :: string
  au_position :: string
  au_phone :: string
  au_role :: Role
  au_department :: "string option"
  au_avatar_url :: "string option"

record AuthState =
  user :: "AuthUser option"
  isAuthenticated :: bool
  isOnboardingComplete :: bool

text \<open>
  \<^verbatim>\<open>Partial<AuthUser>\<close>: every property may be absent (\<open>None\<close>). A nullable
  property that is present holds \<^verbatim>\<open>null\<close> (\<open>Some None\<close>) or a string.
\<close>

record PartialAuthUser =
  p_id :: "string option"
  p_email :: "string option"
  p_name :: "string option"
  p_company :: "string option"
  p_position :: "string option"
  p_phone :: "string option"
  p_role :: "Role option"
  p_department :: "string option option"
  p_avatar_url :: "string option option"

text \<open>
  The session user handed over by the auth provider (\<^verbatim>\<open>User\<close> of supabase-js): only
  the properties the manager reads. \<^verbatim>\<open>email\<close> is optional, \<^verbatim>\<open>user_metadata\<close> is
  read through \<^verbatim>\<open>?.\<close>, so both may be absent.
\<close>

record SessionUser =
  su_id :: string
  su_email :: "string option"
  su_user_metadata :: "(string \<rightharpoonup> string) option"

text \<open>
  A row of the \<^verbatim>\<open>profiles\<close> table as the manager reads it. The columns that the
  source reads through \<^verbatim>\<open>||\<close> are taken as nullable.
\<close>

record ProfileRow =
  pr_id :: string
  pr_email :: string
  pr_full_name :: "string option"
  pr_company :: "string option"
  pr_position :: "string option"
  pr_phone :: "string option"
  pr_role :: Role
  pr_department :: "string option"
  pr_avatar_url :: "string option"

text \<open>The object given to \<^verbatim>\<open>.insert(...)\<close> by \<^verbatim>\<open>register\<close>.\<close>

record ProfileInsert =
  pi_id :: string
  pi_email :: string
  pi_full_name :: string
  pi_company :: string
  pi_position :: string
  pi_phone :: string
  pi_department :: string
  pi_role :: Role
  pi_avatar_url :: "string option"

text \<open>The object given to \<^verbatim>\<open>.update(...)\<close> by \<^verbatim>\<open>updateProfile\<close>.\<close>

record ProfileUpdate =
  pu_full_name :: string
  pu_role :: Role
  pu_department :: "string option"
  pu_avatar_url :: "string option"
  pu_updated_at :: string

record RegisterData =
  rd_email :: string
  rd_password :: string
  rd_name :: string
  rd_company :: string
  rd_position :: string
  rd_phone :: string
  rd_department :: string

subsection \<open>Answers of the external collaborators\<close>

text \<open>
  Every \<^verbatim>\<open>await\<close> on the auth provider or on the profile store either rejects (the
  \<^verbatim>\<open>catch\<close> block runs; the thrown value's \<^verbatim>\<open>message\<close> may be missing) or resolves
  to a response object. The responses are parameters of the operations.
\<close>

datatype 'a awaited = Rejected "string option" | Resolved 'a

record PostgrestError =
  pg_code :: string
  pg_message :: string

record SelectResponse =
  sel_data :: "ProfileRow option"
  sel_error :: "PostgrestError option"

text \<open>
  \<^verbatim>\<open>{ data: { user }, error }\<close> of \<^verbatim>\<open>signInWithPassword\<close> and \<^verbatim>\<open>signUp\<close>; of the
  error only \<^verbatim>\<open>message\<close> is read.
\<close>

record AuthResponse =
  auth_user :: "SessionUser option"
  auth_error :: "string option"

subsection \<open>Results and observable effects\<close>

record Result =
  success :: bool
  error :: "string option"

record DataResult = Result +
  data :: "AuthUser option"

text \<open>
  A listener is a callback, compared by reference (\<^verbatim>\<open>l !== listener\<close>): it is
  modelled by its identity. Calling it is an effect, recorded with the state it
  is handed. Listeners are taken to return normally and not to call back into
  the manager.
\<close>

type_synonym listener = nat

datatype effect =
    Notify listener AuthState
  | ConsoleError string
  | ProfilesInsert ProfileInsert
  | ProfilesUpdate string ProfileUpdate

record SupabaseAuth =
  authState :: AuthState
  listeners :: "listener list"

section \<open>The manager\<close>

definition emptyAuthState :: AuthState where
  "emptyAuthState = \<lparr>user = None, isAuthenticated = False, isOnboardingComplete = False\<rparr>"

definition initial :: SupabaseAuth where
  "initial = \<lparr>authState = emptyAuthState, listeners = []\<rparr>"

text \<open>\<^verbatim>\<open>a || d\<close> for a string that may be null or undefined, and a string default.\<close>

definition js_or :: "string option \<Rightarrow> string \<Rightarrow> string" where
  "js_or a d = (case a of None \<Rightarrow> d | Some s \<Rightarrow> if s = [] then d else s)"

text \<open>\<^verbatim>\<open>a || d\<close> for a nullable property of a partial object and a nullable default.\<close>

definition js_or_null :: "string option option \<Rightarrow> string option \<Rightarrow> string option" where
  "js_or_null a d =
     (case a of
        None \<Rightarrow> d
      | Some None \<Rightarrow> d
      | Some (Some s) \<Rightarrow> if s = [] then d else Some s)"

text \<open>\<^verbatim>\<open>user.user_metadata?.key\<close>\<close>

definition metadata :: "SessionUser \<Rightarrow> string \<Rightarrow> string option" where
  "metadata u k = (case su_user_metadata u of None \<Rightarrow> None | Some md \<Rightarrow> md k)"

definition notifyListeners :: "SupabaseAuth \<Rightarrow> effect list" where
  "notifyListeners m = map (\<lambda>l. Notify l (authState m)) (listeners m)"

text \<open>\<^verbatim>\<open>error && error.code !== 'PGRST116'\<close>\<close>

definition fetch_failed :: "PostgrestError option \<Rightarrow> bool" where
  "fetch_failed e = (case e of None \<Rightarrow> False | Some err \<Rightarrow> pg_code err \<noteq> ''PGRST116'')"

definition userFromProfile :: "ProfileRow \<Rightarrow> SessionUser \<Rightarrow> AuthUser" where
  "userFromProfile profile u =
     \<lparr>au_id = pr_id profile,
      au_email = pr_email profile,
      au_name = js_or (pr_full_name profile) (js_or (su_email u) []),
      au_company = js_or (pr_company profile) [],
      au_position = js_or (pr_position profile) [],
      au_phone = js_or (pr_phone profile) [],
      au_role = pr_role profile,
      au_department = pr_department profile,
      au_avatar_url = pr_avatar_url profile\<rparr>"

definition userFromMetadata :: "SessionUser \<Rightarrow> AuthUser" where
  "userFromMetadata u =
     \<lparr>au_id = su_id u,
      au_email = js_or (su_email u) [],
      au_name = js_or (metadata u ''full_name'') (js_or (su_email u) []),
      au_company = js_or (metadata u ''company'') [],
      au_position = js_or (metadata u ''position'') [],
      au_phone = js_or (metadata u ''phone'') [],
      au_role = RoleUser,
      au_department = None,
      au_avatar_url = None\<rparr>"

definition setUserFromSession ::
  "SupabaseAuth \<Rightarrow> SessionUser \<Rightarrow> SelectResponse awaited \<Rightarrow> SupabaseAuth \<times> effect list" where
  "setUserFromSession m u q =
     (case q of
        Rejected e \<Rightarrow> (m, [ConsoleError ''Error setting user from session:''])
      | Resolved r \<Rightarrow>
          if fetch_failed (sel_error r) then (m, [ConsoleError ''Profile fetch error:''])
          else
            let m' = m\<lparr>authState :=
                  (case sel_data r of
                     Some profile \<Rightarrow>
                       \<lparr>user = Some (userFromProfile profile u),
                        isAuthenticated = True,
                        isOnboardingComplete = True\<rparr>
                   | None \<Rightarrow>
                       \<lparr>user = Some (userFromMetadata u),
                        isAuthenticated = True,
                        isOnboardingComplete = False\<rparr>)\<rparr>
            in (m', notifyListeners m'))"

definition clearAuthState :: "SupabaseAuth \<Rightarrow> SupabaseAuth \<times> effect list" where
  "clearAuthState m =
     (let m' = m\<lparr>authState :=
            \<lparr>user = None, isAuthenticated = False, isOnboardingComplete = False\<rparr>\<rparr>
      in (m', notifyListeners m'))"

text \<open>
  \<^verbatim>\<open>subscribe\<close> pushes the listener; the closure it returns is \<open>unsubscribe\<close> for
  that listener, applied to the manager as it is when the closure is called.
\<close>

definition subscribe :: "SupabaseAuth \<Rightarrow> listener \<Rightarrow> SupabaseAuth" where
  "subscribe m l = m\<lparr>listeners := listeners m @ [l]\<rparr>"

definition unsubscribe :: "SupabaseAuth \<Rightarrow> listener \<Rightarrow> SupabaseAuth" where
  "unsubscribe m l = m\<lparr>listeners := filter (\<lambda>x. x \<noteq> l) (listeners m)\<rparr>"

subsection \<open>Messages\<close>

text \<open>
  The fixed error messages of the source are Japanese string literals; they are
  given here as their UTF-8 bytes.
\<close>

definition MSG_LOGIN_FAILED :: string where
  "MSG_LOGIN_FAILED =
    [CHR 0xE3, CHR 0x83, CHR 0xAD, CHR 0xE3, CHR 0x82, CHR 0xB0, CHR 0xE3, CHR 0x82, CHR 0xA4,
     CHR 0xE3, CHR 0x83, CHR 0xB3, CHR 0xE3, CHR 0x81, CHR 0xAB, CHR 0xE5, CHR 0xA4, CHR 0xB1,
     CHR 0xE6, CHR 0x95, CHR 0x97, CHR 0xE3, CHR 0x81, CHR 0x97, CHR 0xE3, CHR 0x81, CHR 0xBE,
     CHR 0xE3, CHR 0x81, CHR 0x97, CHR 0xE3, CHR 0x81, CHR 0x9F]"

definition MSG_REGISTER_FAILED :: string where
  "MSG_REGISTER_FAILED =
    [CHR 0xE7, CHR 0x99, CHR 0xBB, CHR 0xE9, CHR 0x8C, CHR 0xB2, CHR 0xE3, CHR 0x81, CHR 0xAB,
     CHR 0xE5, CHR 0xA4, CHR 0xB1, CHR 0xE6, CHR 0x95, CHR 0x97, CHR 0xE3, CHR 0x81, CHR 0x97,
     CHR 0xE3, CHR 0x81, CHR 0xBE, CHR 0xE3, CHR 0x81, CHR 0x97, CHR 0xE3, CHR 0x81, CHR 0x9F]"

definition MSG_LOGOUT_FAILED :: string where
  "MSG_LOGOUT_FAILED =
    [CHR 0xE3, CHR 0x83, CHR 0xAD, CHR 0xE3, CHR 0x82, CHR 0xB0, CHR 0xE3, CHR 0x82, CHR 0xA2,
     CHR 0xE3, CHR 0x82, CHR 0xA6, CHR 0xE3, CHR 0x83, CHR 0x88, CHR 0xE3, CHR 0x81, CHR 0xAB,
     CHR 0xE5, CHR 0xA4, CHR 0xB1, CHR 0xE6, CHR 0x95, CHR 0x97, CHR 0xE3, CHR 0x81, CHR 0x97,
     CHR 0xE3, CHR 0x81, CHR 0xBE, CHR 0xE3, CHR 0x81, CHR 0x97, CHR 0xE3, CHR 0x81, CHR 0x9F]"

definition MSG_USER_NOT_FOUND :: string where
  "MSG_USER_NOT_FOUND =
    [CHR 0xE3, CHR 0x83, CHR 0xA6, CHR 0xE3, CHR 0x83, CHR 0xBC, CHR 0xE3, CHR 0x82, CHR 0xB6,
     CHR 0xE3, CHR 0x83, CHR 0xBC, CHR 0xE3, CHR 0x81, CHR 0x8C, CHR 0xE8, CHR 0xA6, CHR 0x8B,
     CHR 0xE3, CHR 0x81, CHR 0xA4, CHR 0xE3, CHR 0x81, CHR 0x8B, CHR 0xE3, CHR 0x82, CHR 0x8A,
     CHR 0xE3, CHR 0x81, CHR 0xBE, CHR 0xE3, CHR 0x81, CHR 0x9B, CHR 0xE3, CHR 0x82, CHR 0x93]"

definition MSG_UPDATE_FAILED :: string where
  "MSG_UPDATE_FAILED =
    [CHR 0xE3, CHR 0x83, CHR 0x97, CHR 0xE3, CHR 0x83, CHR 0xAD, CHR 0xE3, CHR 0x83, CHR 0x95,
     CHR 0xE3, CHR 0x82, CHR 0xA3, CHR 0xE3, CHR 0x83, CHR 0xBC, CHR 0xE3, CHR 0x83, CHR 0xAB,
     CHR 0xE6, CHR 0x9B, CHR 0xB4, CHR 0xE6, CHR 0x96, CHR 0xB0, CHR 0xE3, CHR 0x81, CHR 0xAB,
     CHR 0xE5, CHR 0xA4, CHR 0xB1, CHR 0xE6, CHR 0x95, CHR 0x97, CHR 0xE3, CHR 0x81, CHR 0x97,
     CHR 0xE3, CHR 0x81, CHR 0xBE, CHR 0xE3, CHR 0x81, CHR 0x97, CHR 0xE3, CHR 0x81, CHR 0x9F]"

definition MSG_RESET_FAILED :: string where
  "MSG_RESET_FAILED =
    [CHR 0xE3, CHR 0x83, CHR 0x91, CHR 0xE3, CHR 0x82, CHR 0xB9, CHR 0xE3, CHR 0x83, CHR 0xAF,
     CHR 0xE3, CHR 0x83, CHR 0xBC, CHR 0xE3, CHR 0x83, CHR 0x89, CHR 0xE3, CHR 0x83, CHR 0xAA,
     CHR 0xE3, CHR 0x82, CHR 0xBB, CHR 0xE3, CHR 0x83, CHR 0x83, CHR 0xE3, CHR 0x83, CHR 0x88,
     CHR 0xE3, CHR 0x81, CHR 0xAB, CHR 0xE5, CHR 0xA4, CHR 0xB1, CHR 0xE6, CHR 0x95, CHR 0x97,
     CHR 0xE3, CHR 0x81, CHR 0x97, CHR 0xE3, CHR 0x81, CHR 0xBE, CHR 0xE3, CHR 0x81, CHR 0x97,
     CHR 0xE3, CHR 0x81, CHR 0x9F]"

subsection \<open>Operations\<close>

definition failure :: "string \<Rightarrow> Result" where
  "failure msg = \<lparr>success = False, error = Some msg\<rparr>"

definition ok :: Result where
  "ok = \<lparr>success = True, error = None\<rparr>"

definition login ::
  "SupabaseAuth \<Rightarrow> string \<Rightarrow> string \<Rightarrow> AuthResponse awaited \<Rightarrow> SelectResponse awaited
     \<Rightarrow> SupabaseAuth \<times> Result \<times> effect list" where
  "login m email password a q =
     (case a of
        Rejected e \<Rightarrow> (m, failure (js_or e MSG_LOGIN_FAILED), [])
      | Resolved r \<Rightarrow>
          (case auth_error r of
             Some msg \<Rightarrow> (m, failure msg, [])
           | None \<Rightarrow>
               (case auth_user r of
                  Some u \<Rightarrow>
                    (case setUserFromSession m u q of (m', tr) \<Rightarrow> (m', ok, tr))
                | None \<Rightarrow> (m, failure MSG_LOGIN_FAILED, []))))"

definition profileInsert :: "SessionUser \<Rightarrow> RegisterData \<Rightarrow> ProfileInsert" where
  "profileInsert u userData =
     \<lparr>pi_id = su_id u,
      pi_email = rd_email userData,
      pi_full_name = rd_name userData,
      pi_company = rd_company userData,
      pi_position = rd_position userData,
      pi_phone = rd_phone userData,
      pi_department = rd_department userData,
      pi_role = RoleUser,
      pi_avatar_url = None\<rparr>"

definition register ::
  "SupabaseAuth \<Rightarrow> RegisterData \<Rightarrow> AuthResponse awaited \<Rightarrow> PostgrestError option awaited
     \<Rightarrow> SelectResponse awaited \<Rightarrow> SupabaseAuth \<times> Result \<times> effect list" where
  "register m userData a ins q =
     (case a of
        Rejected e \<Rightarrow> (m, failure (js_or e MSG_REGISTER_FAILED), [])
      | Resolved r \<Rightarrow>
          (case auth_error r of
             Some msg \<Rightarrow> (m, failure msg, [])
           | None \<Rightarrow>
               (case auth_user r of
                  Some u \<Rightarrow>
                    (case ins of
                       Rejected e \<Rightarrow>
                         (m, failure (js_or e MSG_REGISTER_FAILED),
                          [ProfilesInsert (profileInsert u userData)])
                     | Resolved profileError \<Rightarrow>
                         (case setUserFromSession m u q of
                            (m', tr) \<Rightarrow>
                              (m', ok,
                               ProfilesInsert (profileInsert u userData) #
                               (case profileError of
                                  Some pe \<Rightarrow> [ConsoleError ''Profile creation error:'']
                                | None \<Rightarrow> []) @ tr)))
                | None \<Rightarrow> (m, failure MSG_REGISTER_FAILED, []))))"

text \<open>\<^verbatim>\<open>signOut\<close> answers \<^verbatim>\<open>{ error }\<close>; of the error only \<^verbatim>\<open>message\<close> is read.\<close>

definition logout ::
  "SupabaseAuth \<Rightarrow> string option awaited \<Rightarrow> SupabaseAuth \<times> Result \<times> effect list" where
  "logout m a =
     (case a of
        Rejected e \<Rightarrow> (m, failure (js_or e MSG_LOGOUT_FAILED), [])
      | Resolved err \<Rightarrow>
          (case err of
             Some msg \<Rightarrow> (m, failure msg, [])
           | None \<Rightarrow> (case clearAuthState m of (m', tr) \<Rightarrow> (m', ok, tr))))"

text \<open>
  The object sent to the store by \<^verbatim>\<open>updateProfile\<close>; \<open>now\<close> stands for
  \<^verbatim>\<open>new Date().toISOString()\<close>. A role is a non-empty string, so
  \<^verbatim>\<open>updates.role || currentUser.role\<close> takes the update's role whenever it is present.
\<close>

definition updatePayload :: "AuthUser \<Rightarrow> PartialAuthUser \<Rightarrow> string \<Rightarrow> ProfileUpdate" where
  "updatePayload currentUser updates now =
     \<lparr>pu_full_name = js_or (p_name updates) (au_name currentUser),
      pu_role = (case p_role updates of Some r \<Rightarrow> r | None \<Rightarrow> au_role currentUser),
      pu_department = js_or_null (p_department updates) (au_department currentUser),
      pu_avatar_url = js_or_null (p_avatar_url updates) (au_avatar_url currentUser),
      pu_updated_at = now\<rparr>"

text \<open>\<^verbatim>\<open>{ ...currentUser, ...updates }\<close>\<close>

definition spread :: "'a \<Rightarrow> 'a option \<Rightarrow> 'a" where
  "spread cur upd = (case upd of Some v \<Rightarrow> v | None \<Rightarrow> cur)"

definition mergeUser :: "AuthUser \<Rightarrow> PartialAuthUser \<Rightarrow> AuthUser" where
  "mergeUser currentUser updates =
     \<lparr>au_id = spread (au_id currentUser) (p_id updates),
      au_email = spread (au_email currentUser) (p_email updates),
      au_name = spread (au_name currentUser) (p_name updates),
      au_company = spread (au_company currentUser) (p_company updates),
      au_position = spread (au_position currentUser) (p_position updates),
      au_phone = spread (au_phone currentUser) (p_phone updates),
      au_role = spread (au_role currentUser) (p_role updates),
      au_department = spread (au_department currentUser) (p_department updates),
      au_avatar_url = spread (au_avatar_url currentUser) (p_avatar_url updates)\<rparr>"

definition dataFailure :: "string \<Rightarrow> DataResult" where
  "dataFailure msg = \<lparr>success = False, error = Some msg, data = None\<rparr>"

text \<open>
  \<^verbatim>\<open>updateProfile\<close> reads \<^verbatim>\<open>this.authState.user\<close> before it awaits the store
  and writes \<^verbatim>\<open>this.authState.user\<close> after the await, into the state as it is
  then; other operations may complete in between. It is therefore given in two
  halves. The first half runs up to the await: without a user the call returns
  (\<open>Inl\<close>); otherwise the update is sent and the call is suspended, holding
  \<^verbatim>\<open>currentUser\<close> (\<open>Inr\<close>).
\<close>

definition updateProfile_start ::
  "SupabaseAuth \<Rightarrow> PartialAuthUser \<Rightarrow> string \<Rightarrow> DataResult + AuthUser \<times> effect list" where
  "updateProfile_start m updates now =
     (case user (authState m) of
        None \<Rightarrow> Inl (dataFailure MSG_USER_NOT_FOUND)
      | Some currentUser \<Rightarrow>
          Inr (currentUser,
               [ProfilesUpdate (au_id currentUser) (updatePayload currentUser updates now)]))"

text \<open>
  The second half runs when the store has answered, on the manager \<open>m\<close> as it
  is at that time, with the \<^verbatim>\<open>currentUser\<close> that the first half read.
\<close>

definition updateProfile_resume ::
  "SupabaseAuth \<Rightarrow> AuthUser \<Rightarrow> PartialAuthUser \<Rightarrow> PostgrestError option awaited
     \<Rightarrow> SupabaseAuth \<times> DataResult \<times> effect list" where
  "updateProfile_resume m currentUser updates resp =
     (case resp of
        Rejected e \<Rightarrow> (m, dataFailure (js_or e MSG_UPDATE_FAILED), [])
      | Resolved err \<Rightarrow>
          (case err of
             Some pe \<Rightarrow> (m, dataFailure (pg_message pe), [])
           | None \<Rightarrow>
               (let updatedUser = mergeUser currentUser updates;
                    m' = m\<lparr>authState := (authState m)\<lparr>user := Some updatedUser\<rparr>\<rparr>
                in (m', \<lparr>success = True, error = None, data = Some updatedUser\<rparr>,
                    notifyListeners m'))))"

text \<open>A call of \<^verbatim>\<open>updateProfile\<close> during whose await nothing else happens to the manager.\<close>

definition updateProfile ::
  "SupabaseAuth \<Rightarrow> PartialAuthUser \<Rightarrow> string \<Rightarrow> PostgrestError option awaited
     \<Rightarrow> SupabaseAuth \<times> DataResult \<times> effect list" where
  "updateProfile m updates now resp =
     (case updateProfile_start m updates now of
        Inl r \<Rightarrow> (m, r, [])
      | Inr (currentUser, sent) \<Rightarrow>
          (case updateProfile_resume m currentUser updates resp of
             (m', r, tr) \<Rightarrow> (m', r, sent @ tr)))"

definition resetPassword ::
  "SupabaseAuth \<Rightarrow> string \<Rightarrow> string option awaited \<Rightarrow> SupabaseAuth \<times> Result \<times> effect list" where
  "resetPassword m email a =
     (case a of
        Rejected e \<Rightarrow> (m, failure (js_or e MSG_RESET_FAILED), [])
      | Resolved err \<Rightarrow>
          (case err of
             Some msg \<Rightarrow> (m, failure msg, [])
           | None \<Rightarrow> (m, ok, [])))"

text \<open>
  \<^verbatim>\<open>initializeAuth\<close>: the session found at start-up, if it has a user, is resolved;
  afterwards the handler below runs on every event of the auth provider.
  \<open>sessionUser\<close> is \<^verbatim>\<open>session?.user\<close>.
\<close>

definition initializeAuth ::
  "SupabaseAuth \<Rightarrow> SessionUser option \<Rightarrow> SelectResponse awaited \<Rightarrow> SupabaseAuth \<times> effect list" where
  "initializeAuth m sessionUser q =
     (case sessionUser of Some u \<Rightarrow> setUserFromSession m u q | None \<Rightarrow> (m, []))"

definition onAuthStateChange ::
  "SupabaseAuth \<Rightarrow> string \<Rightarrow> SessionUser option \<Rightarrow> SelectResponse awaited
     \<Rightarrow> SupabaseAuth \<times> effect list" where
  "onAuthStateChange m event sessionUser q =
     (case (event = ''SIGNED_IN'', sessionUser) of
        (True, Some u) \<Rightarrow> setUserFromSession m u q
      | _ \<Rightarrow> if event = ''SIGNED_OUT'' then clearAuthState m else (m, []))"

subsection \<open>Histories of the manager\<close>

text \<open>
  Everything that can happen to the singleton, with the answers of the
  collaborators, in the order in which it happens to the manager. Every
  operation other than \<^verbatim>\<open>updateProfile\<close> reads and writes the manager only after
  its last await, in one synchronous stretch, so it acts in one step, at the time
  it completes. \<^verbatim>\<open>updateProfile\<close> acts twice: \<open>UpdateProfileStart\<close> is the call up to
  its await, \<open>UpdateProfileResume\<close> its continuation, which carries the
  \<^verbatim>\<open>currentUser\<close> that the call read when it started; \<open>UpdateProfile\<close> is a call
  with nothing in between. \<open>Unsubscribe l\<close> is a call of a closure returned by
  \<^verbatim>\<open>subscribe(l)\<close>.
\<close>

datatype op =
    InitializeAuth "SessionUser option" "SelectResponse awaited"
  | AuthStateChange string "SessionUser option" "SelectResponse awaited"
  | Subscribe listener
  | Unsubscribe listener
  | Login string string "AuthResponse awaited" "SelectResponse awaited"
  | Register RegisterData "AuthResponse awaited" "PostgrestError option awaited"
      "SelectResponse awaited"
  | Logout "string option awaited"
  | UpdateProfile PartialAuthUser string "PostgrestError option awaited"
  | UpdateProfileStart PartialAuthUser string
  | UpdateProfileResume AuthUser PartialAuthUser "PostgrestError option awaited"
  | ResetPassword string "string option awaited"

fun step :: "SupabaseAuth \<Rightarrow> op \<Rightarrow> SupabaseAuth \<times> effect list" where
  "step m (InitializeAuth s q) = initializeAuth m s q"
| "step m (AuthStateChange ev s q) = onAuthStateChange m ev s q"
| "step m (Subscribe l) = (subscribe m l, [])"
| "step m (Unsubscribe l) = (unsubscribe m l, [])"
| "step m (Login email password a q) =
     (case login m email password a q of (m', r, tr) \<Rightarrow> (m', tr))"
| "step m (Register userData a ins q) =
     (case register m userData a ins q of (m', r, tr) \<Rightarrow> (m', tr))"
| "step m (Logout a) = (case logout m a of (m', r, tr) \<Rightarrow> (m', tr))"
| "step m (UpdateProfile updates now resp) =
     (case updateProfile m updates now resp of (m', r, tr) \<Rightarrow> (m', tr))"
| "step m (UpdateProfileStart updates now) =
     (case updateProfile_start m updates now of
        Inl r \<Rightarrow> (m, [])
      | Inr (currentUser, sent) \<Rightarrow> (m, sent))"
| "step m (UpdateProfileResume currentUser updates resp) =
     (case updateProfile_resume m currentUser updates resp of (m', r, tr) \<Rightarrow> (m', tr))"
| "step m (ResetPassword email a) =
     (case resetPassword m email a of (m', r, tr) \<Rightarrow> (m', tr))"

fun run :: "SupabaseAuth \<Rightarrow> op list \<Rightarrow> SupabaseAuth \<times> effect list" where
  "run m [] = (m, [])"
| "run m (x # xs) =
     (case step m x of (m', tr) \<Rightarrow> (case run m' xs of (m'', tr') \<Rightarrow> (m'', tr @ tr')))"

text \<open>The calls received by listener \<open>l\<close> in a trace, in order.\<close>

definition received :: "listener \<Rightarrow> effect list \<Rightarrow> AuthState list" where
  "received l tr = concat (map (\<lambda>e. case e of Notify k s \<Rightarrow> if k = l then [s] else [] | _ \<Rightarrow> []) tr)"

text \<open>All listener calls of a trace, in order.\<close>

definition calls :: "effect list \<Rightarrow> (listener \<times> AuthState) list" where
  "calls tr = concat (map (\<lambda>e. case e of Notify k s \<Rightarrow> [(k, s)] | _ \<Rightarrow> []) tr)"

section \<open>Vocabulary of the properties\<close>

subsection \<open>Observations on traces\<close>

text \<open>The update requests of a trace, in order.\<close>

definition updates_sent :: "effect list \<Rightarrow> (string \<times> ProfileUpdate) list" where
  "updates_sent tr =
     concat (map (\<lambda>e. case e of ProfilesUpdate uid upd \<Rightarrow> [(uid, upd)] | _ \<Rightarrow> []) tr)"

subsection \<open>Defaults, read as choices\<close>

text \<open>The session's email, the empty string when the session has none.\<close>

definition email_or_empty :: "SessionUser \<Rightarrow> string" where
  "email_or_empty u = (case su_email u of Some e \<Rightarrow> e | None \<Rightarrow> [])"

text \<open>A name, or the default when the name is null or empty.\<close>

definition name_or :: "string option \<Rightarrow> string \<Rightarrow> string" where
  "name_or n d = (if n = None \<or> n = Some [] then d else the n)"

text \<open>A metadata entry, the empty string when the map or the entry is missing.\<close>

definition metadata_or_empty :: "SessionUser \<Rightarrow> string \<Rightarrow> string" where
  "metadata_or_empty u k =
     (case su_user_metadata u of
        None \<Rightarrow> []
      | Some md \<Rightarrow> (case md k of None \<Rightarrow> [] | Some v \<Rightarrow> v))"

text \<open>A nullable property of an update, or the default when it is absent, null or empty.\<close>

definition nullable_or :: "string option option \<Rightarrow> string option \<Rightarrow> string option" where
  "nullable_or a d = (if a = None \<or> a = Some None \<or> a = Some (Some []) then d else the a)"

subsection \<open>Histories in which a resumed update finds a user\<close>



subsection \<open>States after a resolution\<close>

text \<open>
  The state after a resolution from the profile \<open>p\<close>: onboarding complete, the
  session user's id, the profile's name or else the session's email.
\<close>

definition resolvedFromProfile :: "AuthState \<Rightarrow> SessionUser \<Rightarrow> ProfileRow \<Rightarrow> bool" where
  "resolvedFromProfile s u p =
     (isOnboardingComplete s \<and>
      map_option au_id (user s) = Some (su_id u) \<and>
      map_option au_name (user s) = Some (name_or (pr_full_name p) (email_or_empty u)))"

text \<open>
  The state that claim C3 describes, word for word: every one of name, company,
  position and phone is the metadata entry, or the empty string.
\<close>

definition claimed_resolvedFromMetadata :: "AuthState \<Rightarrow> SessionUser \<Rightarrow> bool" where
  "claimed_resolvedFromMetadata s u =
     (\<not> isOnboardingComplete s \<and>
      map_option au_name (user s) = Some (metadata_or_empty u ''full_name'') \<and>
      map_option au_company (user s) = Some (metadata_or_empty u ''company'') \<and>
      map_option au_position (user s) = Some (metadata_or_empty u ''position'') \<and>
      map_option au_phone (user s) = Some (metadata_or_empty u ''phone'') \<and>
      map_option au_role (user s) = Some RoleUser \<and>
      map_option au_department (user s) = Some None \<and>
      map_option au_avatar_url (user s) = Some None)"

text \<open>The same with the name falling back to the session's email first.\<close>

definition resolvedFromMetadata :: "AuthState \<Rightarrow> SessionUser \<Rightarrow> bool" where
  "resolvedFromMetadata s u =
     (\<not> isOnboardingComplete s \<and>
      map_option au_name (user s) =
        Some (name_or (metadata u ''full_name'') (email_or_empty u)) \<and>
      map_option au_company (user s) = Some (metadata_or_empty u ''company'') \<and>
      map_option au_position (user s) = Some (metadata_or_empty u ''position'') \<and>
      map_option au_phone (user s) = Some (metadata_or_empty u ''phone'') \<and>
      map_option au_role (user s) = Some RoleUser \<and>
      map_option au_department (user s) = Some None \<and>
      map_option au_avatar_url (user s) = Some None)"

text \<open>
  The record that claim C6 describes, word for word: each of the four fields is
  the update's when the update has the field, the current one otherwise.
\<close>

definition claimed_updatePayload :: "AuthUser \<Rightarrow> PartialAuthUser \<Rightarrow> string \<Rightarrow> ProfileUpdate" where
  "claimed_updatePayload currentUser updates now =
     \<lparr>pu_full_name = (case p_name updates of Some v \<Rightarrow> v | None \<Rightarrow> au_name currentUser),
      pu_role = (case p_role updates of Some v \<Rightarrow> v | None \<Rightarrow> au_role currentUser),
      pu_department =
        (case p_department updates of Some v \<Rightarrow> v | None \<Rightarrow> au_department currentUser),
      pu_avatar_url =
        (case p_avatar_url updates of Some v \<Rightarrow> v | None \<Rightarrow> au_avatar_url currentUser),
      pu_updated_at = now\<rparr>"

subsection \<open>Example values\<close>

definition ex_user :: SessionUser where
  "ex_user = \<lparr>su_id = ''u1'', su_email = Some ''a@x.com'', su_user_metadata = None\<rparr>"

definition ex_profile :: ProfileRow where
  "ex_profile =
     \<lparr>pr_id = ''u1'', pr_email = ''a@x.com'', pr_full_name = Some ''Ann'',
      pr_company = None, pr_position = None, pr_phone = None, pr_role = RoleAdmin,
      pr_department = Some ''Sales'', pr_avatar_url = None\<rparr>"

definition ex_found :: SelectResponse where
  "ex_found = \<lparr>sel_data = Some ex_profile, sel_error = None\<rparr>"

definition ex_not_found :: SelectResponse where
  "ex_not_found =
     \<lparr>sel_data = None, sel_error = Some \<lparr>pg_code = ''PGRST116'', pg_message = ''no rows''\<rparr>\<rparr>"

definition ex_fetch_error :: SelectResponse where
  "ex_fetch_error =
     \<lparr>sel_data = None, sel_error = Some \<lparr>pg_code = ''500'', pg_message = ''unavailable''\<rparr>\<rparr>"

definition ex_signed_up :: AuthResponse where
  "ex_signed_up = \<lparr>auth_user = Some ex_user, auth_error = None\<rparr>"

definition ex_ann :: AuthUser where
  "ex_ann =
     \<lparr>au_id = ''u1'', au_email = ''a@x.com'', au_name = ''Ann'', au_company = ''ACME'',
      au_position = ''CTO'', au_phone = ''555'', au_role = RoleUser,
      au_department = Some ''Sales'', au_avatar_url = Some ''ann.png''\<rparr>"

definition ex_session :: SupabaseAuth where
  "ex_session =
     \<lparr>authState = \<lparr>user = Some ex_ann, isAuthenticated = True, isOnboardingComplete = True\<rparr>,
      listeners = [1, 2]\<rparr>"

definition no_updates :: PartialAuthUser where
  "no_updates =
     \<lparr>p_id = None, p_email = None, p_name = None, p_company = None, p_position = None,
      p_phone = None, p_role = None, p_department = None, p_avatar_url = None\<rparr>"

definition ex_clear_name :: PartialAuthUser where
  "ex_clear_name = no_updates\<lparr>p_name := Some []\<rparr>"

definition ex_promote :: PartialAuthUser where
  "ex_promote = no_updates\<lparr>p_role := Some RoleAdmin, p_phone := Some ''777''\<rparr>"


definition ex_now :: string where
  "ex_now = ''2024-01-01T00:00:00.000Z''"

definition ex_data :: RegisterData where
  "ex_data =
     \<lparr>rd_email = ''a@x.com'', rd_password = ''secret'', rd_name = ''Ann'', rd_company = ''ACME'',
      rd_position = ''CTO'', rd_phone = ''555'', rd_department = ''Sales''\<rparr>"

definition ex_insert_error :: PostgrestError where
  "ex_insert_error = \<lparr>pg_code = ''500'', pg_message = ''unavailable''\<rparr>"




section \<open>Auxiliary lemmas\<close>

lemma updateProfile_alone:
  "updateProfile m updates now resp =
     (case user (authState m) of
        None \<Rightarrow> (m, dataFailure MSG_USER_NOT_FOUND, [])
      | Some currentUser \<Rightarrow>
          (case resp of
             Rejected e \<Rightarrow>
               (m, dataFailure (js_or e MSG_UPDATE_FAILED),
                [ProfilesUpdate (au_id currentUser) (updatePayload currentUser updates now)])
           | Resolved err \<Rightarrow>
               (case err of
                  Some pe \<Rightarrow>
                    (m, dataFailure (pg_message pe),
                     [ProfilesUpdate (au_id currentUser) (updatePayload currentUser updates now)])
                | None \<Rightarrow>
                    (let updatedUser = mergeUser currentUser updates;
                         m' = m\<lparr>authState := (authState m)\<lparr>user := Some updatedUser\<rparr>\<rparr>
                     in (m', \<lparr>success = True, error = None, data = Some updatedUser\<rparr>,
                         ProfilesUpdate (au_id currentUser)
                           (updatePayload currentUser updates now) # notifyListeners m')))))"
  by (simp add: updateProfile_def updateProfile_start_def updateProfile_resume_def Let_def
      split: option.split awaited.split)



lemma setUserFromSession_listeners:
  "listeners (fst (setUserFromSession m u q)) = listeners m"
  by (simp add: setUserFromSession_def Let_def split: awaited.split)

lemma clearAuthState_listeners: "listeners (fst (clearAuthState m)) = listeners m"
  by (simp add: clearAuthState_def Let_def)







lemma resetPassword_state: "fst (resetPassword m email a) = m"
  by (simp add: resetPassword_def split: awaited.split option.split)



lemma fst_step:
  "fst (step m (Login email password a q)) = fst (login m email password a q)"
  "fst (step m (Register userData a ins q)) = fst (register m userData a ins q)"
  "fst (step m (Logout b)) = fst (logout m b)"
  "fst (step m (UpdateProfile updates now resp)) = fst (updateProfile m updates now resp)"
  "fst (step m (ResetPassword email b)) = fst (resetPassword m email b)"
  "fst (step m (UpdateProfileStart updates now)) = m"
  "fst (step m (UpdateProfileResume cu updates resp)) =
     fst (updateProfile_resume m cu updates resp)"
  by (simp_all add: split_beta split: sum.split)

lemma run_Cons:
  "fst (run m (x # xs)) = fst (run (fst (step m x)) xs)"
  "snd (run m (x # xs)) = snd (step m x) @ snd (run (fst (step m x)) xs)"
  by (simp_all add: split_beta)




lemma js_or_email: "js_or (su_email u) [] = email_or_empty u"
  by (simp add: js_or_def email_or_empty_def split: option.split)

lemma name_or_email: "name_or (su_email u) [] = email_or_empty u"
  by (simp add: name_or_def email_or_empty_def split: option.split)

lemma js_or_name: "js_or n d = name_or n d"
  by (cases n) (simp_all add: js_or_def name_or_def)

lemma name_or_metadata: "name_or (metadata u k) [] = metadata_or_empty u k"
  by (simp add: name_or_def metadata_def metadata_or_empty_def split: option.split)

lemma setUserFromSession_found:
  "sel_data r = Some p \<Longrightarrow> \<not> fetch_failed (sel_error r) \<Longrightarrow>
   setUserFromSession m u (Resolved r) =
     (m\<lparr>authState := \<lparr>user = Some (userFromProfile p u), isAuthenticated = True,
                        isOnboardingComplete = True\<rparr>\<rparr>,
      map (\<lambda>l. Notify l \<lparr>user = Some (userFromProfile p u), isAuthenticated = True,
                        isOnboardingComplete = True\<rparr>) (listeners m))"
  by (simp add: setUserFromSession_def Let_def notifyListeners_def)

lemma setUserFromSession_missing:
  "sel_data r = None \<Longrightarrow> \<not> fetch_failed (sel_error r) \<Longrightarrow>
   setUserFromSession m u (Resolved r) =
     (m\<lparr>authState := \<lparr>user = Some (userFromMetadata u), isAuthenticated = True,
                        isOnboardingComplete = False\<rparr>\<rparr>,
      map (\<lambda>l. Notify l \<lparr>user = Some (userFromMetadata u), isAuthenticated = True,
                        isOnboardingComplete = False\<rparr>) (listeners m))"
  by (simp add: setUserFromSession_def Let_def notifyListeners_def)

lemma setUserFromSession_failed:
  "fetch_failed (sel_error r) \<Longrightarrow>
   setUserFromSession m u (Resolved r) = (m, [ConsoleError ''Profile fetch error:''])"
  by (simp add: setUserFromSession_def)

lemma signed_in_event:
  "onAuthStateChange m ''SIGNED_IN'' (Some u) q = setUserFromSession m u q"
  by (simp add: onAuthStateChange_def)

lemma login_resolves:
  "auth_error a = None \<Longrightarrow> auth_user a = Some u \<Longrightarrow>
   login m email password (Resolved a) q =
     (fst (setUserFromSession m u q), ok, snd (setUserFromSession m u q))"
  by (simp add: login_def split_beta)

lemma register_resolves:
  "auth_error a = None \<Longrightarrow> auth_user a = Some u \<Longrightarrow>
   fst (register m userData (Resolved a) (Resolved pe) q) = fst (setUserFromSession m u q) \<and>
   fst (snd (register m userData (Resolved a) (Resolved pe) q)) = ok"
  by (simp add: register_def split_beta)


lemma calls_simps:
  "calls [] = []"
  "calls (Notify k s # tr) = (k, s) # calls tr"
  "calls (ConsoleError msg # tr) = calls tr"
  "calls (ProfilesInsert row # tr) = calls tr"
  "calls (ProfilesUpdate uid upd # tr) = calls tr"
  "calls (tr @ tr') = calls tr @ calls tr'"
  by (simp_all add: calls_def)

lemma calls_notify: "calls (map (\<lambda>l. Notify l s) ls) = map (\<lambda>l. (l, s)) ls"
  by (induction ls) (simp_all add: calls_simps)

lemma updates_sent_simps:
  "updates_sent [] = []"
  "updates_sent (Notify k s # tr) = updates_sent tr"
  "updates_sent (ConsoleError msg # tr) = updates_sent tr"
  "updates_sent (ProfilesInsert row # tr) = updates_sent tr"
  "updates_sent (ProfilesUpdate uid upd # tr) = (uid, upd) # updates_sent tr"
  "updates_sent (tr @ tr') = updates_sent tr @ updates_sent tr'"
  by (simp_all add: updates_sent_def)

lemma updates_sent_notify: "updates_sent (map (\<lambda>l. Notify l s) ls) = []"
  by (induction ls) (simp_all add: updates_sent_simps)

lemma nullable_or: "js_or_null a d = nullable_or a d"
  by (simp add: js_or_null_def nullable_or_def split: option.split)

lemma updateProfile_succeeds:
  "user (authState m) = Some cu \<Longrightarrow>
   updateProfile m upd now (Resolved None) =
     (m\<lparr>authState := (authState m)\<lparr>user := Some (mergeUser cu upd)\<rparr>\<rparr>,
      \<lparr>success = True, error = None, data = Some (mergeUser cu upd)\<rparr>,
      ProfilesUpdate (au_id cu) (updatePayload cu upd now) #
      map (\<lambda>l. Notify l ((authState m)\<lparr>user := Some (mergeUser cu upd)\<rparr>)) (listeners m))"
  by (simp add: updateProfile_alone Let_def notifyListeners_def)

lemma received_calls: "received l tr = map snd (filter (\<lambda>c. fst c = l) (calls tr))"
  by (induction tr) (simp_all add: received_def calls_def split: effect.split)

lemma setUserFromSession_calls:
  "calls (snd (setUserFromSession m u q)) = [] \<or>
   calls (snd (setUserFromSession m u q)) =
     map (\<lambda>l. (l, authState (fst (setUserFromSession m u q)))) (listeners m)"
  by (simp add: setUserFromSession_def Let_def notifyListeners_def calls_simps calls_notify
      split: awaited.split)

lemma clearAuthState_calls:
  "calls (snd (clearAuthState m)) =
     map (\<lambda>l. (l, authState (fst (clearAuthState m)))) (listeners m)"
  by (simp add: clearAuthState_def Let_def notifyListeners_def calls_notify)

lemma login_calls:
  "calls (snd (snd (login m email password a q))) = [] \<or>
   calls (snd (snd (login m email password a q))) =
     map (\<lambda>l. (l, authState (fst (login m email password a q)))) (listeners m)"
  using setUserFromSession_calls [of m]
  by (simp add: login_def split_beta calls_simps split: awaited.split option.split)

lemma register_calls:
  "calls (snd (snd (register m userData a ins q))) = [] \<or>
   calls (snd (snd (register m userData a ins q))) =
     map (\<lambda>l. (l, authState (fst (register m userData a ins q)))) (listeners m)"
  using setUserFromSession_calls [of m]
  by (simp add: register_def split_beta calls_simps split: awaited.split option.split)

lemma logout_calls:
  "calls (snd (snd (logout m b))) = [] \<or>
   calls (snd (snd (logout m b))) = map (\<lambda>l. (l, authState (fst (logout m b)))) (listeners m)"
  using clearAuthState_calls [of m]
  by (simp add: logout_def split_beta calls_simps split: awaited.split option.split)

lemma updateProfile_calls:
  "calls (snd (snd (updateProfile m updates now resp))) = [] \<or>
   calls (snd (snd (updateProfile m updates now resp))) =
     map (\<lambda>l. (l, authState (fst (updateProfile m updates now resp)))) (listeners m)"
  by (simp add: updateProfile_alone Let_def notifyListeners_def calls_simps calls_notify
      split: awaited.split option.split)

lemma resetPassword_calls: "snd (snd (resetPassword m email b)) = []"
  by (simp add: resetPassword_def split: awaited.split option.split)

lemma initializeAuth_calls:
  "calls (snd (initializeAuth m s q)) = [] \<or>
   calls (snd (initializeAuth m s q)) =
     map (\<lambda>l. (l, authState (fst (initializeAuth m s q)))) (listeners m)"
  using setUserFromSession_calls [of m]
  by (simp add: initializeAuth_def calls_simps split: option.split)

lemma onAuthStateChange_calls:
  "calls (snd (onAuthStateChange m ev s q)) = [] \<or>
   calls (snd (onAuthStateChange m ev s q)) =
     map (\<lambda>l. (l, authState (fst (onAuthStateChange m ev s q)))) (listeners m)"
  using setUserFromSession_calls [of m] clearAuthState_calls [of m]
  by (simp add: onAuthStateChange_def calls_simps split: option.split bool.split)

lemma snd_step:
  "snd (step m (Login email password a q)) = snd (snd (login m email password a q))"
  "snd (step m (Register userData a ins q)) = snd (snd (register m userData a ins q))"
  "snd (step m (Logout b)) = snd (snd (logout m b))"
  "snd (step m (UpdateProfile updates now resp)) = snd (snd (updateProfile m updates now resp))"
  "snd (step m (ResetPassword email b)) = snd (snd (resetPassword m email b))"
  "snd (step m (UpdateProfileResume cu updates resp)) =
     snd (snd (updateProfile_resume m cu updates resp))"
  by (simp_all add: split_beta)

lemma updateProfile_start_calls: "calls (snd (step m (UpdateProfileStart updates now))) = []"
  by (simp add: updateProfile_start_def calls_simps split: option.split)

lemma updateProfile_resume_calls:
  "calls (snd (snd (updateProfile_resume m cu updates resp))) = [] \<or>
   calls (snd (snd (updateProfile_resume m cu updates resp))) =
     map (\<lambda>l. (l, authState (fst (updateProfile_resume m cu updates resp)))) (listeners m)"
  by (simp add: updateProfile_resume_def Let_def notifyListeners_def calls_simps calls_notify
      split: awaited.split option.split)

lemma updateProfile_resume_listeners:
  "listeners (fst (updateProfile_resume m cu updates resp)) = listeners m"
  by (simp add: updateProfile_resume_def Let_def split: awaited.split option.split)

lemma step_calls:
  "calls (snd (step m x)) = [] \<or>
   calls (snd (step m x)) = map (\<lambda>l. (l, authState (fst (step m x)))) (listeners m)"
proof (cases x)
  case (InitializeAuth s q)
  then show ?thesis using initializeAuth_calls [of m s q] by simp
next
  case (AuthStateChange ev s q)
  then show ?thesis using onAuthStateChange_calls [of m ev s q] by simp
next
  case (Login email password a q)
  then show ?thesis using login_calls [of m email password a q] by (simp only: fst_step snd_step)
next
  case (Register userData a ins q)
  then show ?thesis using register_calls [of m userData a ins q] by (simp only: fst_step snd_step)
next
  case (Logout b)
  then show ?thesis using logout_calls [of m b] by (simp only: fst_step snd_step)
next
  case (UpdateProfile updates now resp)
  then show ?thesis
    using updateProfile_calls [of m updates now resp] by (simp only: fst_step snd_step)
next
  case (ResetPassword email b)
  then show ?thesis by (simp only: snd_step resetPassword_calls calls_simps) simp
next
  case (UpdateProfileStart updates now)
  then show ?thesis by (simp only: updateProfile_start_calls) simp
next
  case (UpdateProfileResume cu updates resp)
  then show ?thesis
    using updateProfile_resume_calls [of m cu updates resp] by (simp only: fst_step snd_step)
qed (simp_all add: calls_simps)

lemma login_listeners: "listeners (fst (login m email password a q)) = listeners m"
  by (simp add: login_def split_beta setUserFromSession_listeners split: awaited.split option.split)

lemma register_listeners: "listeners (fst (register m userData a ins q)) = listeners m"
  by (simp add: register_def split_beta setUserFromSession_listeners
      split: awaited.split option.split)

lemma logout_listeners: "listeners (fst (logout m b)) = listeners m"
  by (simp add: logout_def split_beta clearAuthState_listeners split: awaited.split option.split)

lemma updateProfile_listeners: "listeners (fst (updateProfile m updates now resp)) = listeners m"
  by (simp add: updateProfile_alone Let_def split: awaited.split option.split)

lemma step_listeners:
  "listeners (fst (step m x)) =
     (case x of
        Subscribe l \<Rightarrow> listeners m @ [l]
      | Unsubscribe l \<Rightarrow> filter (\<lambda>k. k \<noteq> l) (listeners m)
      | _ \<Rightarrow> listeners m)"
  by (cases x)
    (simp_all only: fst_step login_listeners register_listeners logout_listeners
      updateProfile_listeners updateProfile_resume_listeners resetPassword_state op.case,
     simp_all add: initializeAuth_def onAuthStateChange_def setUserFromSession_listeners
      clearAuthState_listeners subscribe_def unsubscribe_def split: option.split bool.split)

lemma step_unsubscribed:
  assumes "l \<notin> set (listeners m)" and "x \<noteq> Subscribe l"
  shows "l \<notin> set (listeners (fst (step m x)))" and "received l (snd (step m x)) = []"
proof -
  show "l \<notin> set (listeners (fst (step m x)))"
    using assms by (auto simp add: step_listeners split: op.split)
  have "filter (\<lambda>c. fst c = l) (map (\<lambda>k. (k, s)) (listeners m)) = []" for s :: AuthState
    using assms(1) by (induction "listeners m") (auto simp add: filter_empty_conv)
  with step_calls [of m x] show "received l (snd (step m x)) = []"
    by (auto simp add: received_calls)
qed

lemma run_unsubscribed:
  "l \<notin> set (listeners m) \<Longrightarrow> Subscribe l \<notin> set ops \<Longrightarrow>
   l \<notin> set (listeners (fst (run m ops))) \<and> received l (snd (run m ops)) = []"
proof (induction ops arbitrary: m)
  case Nil
  then show ?case by (simp add: received_def)
next
  case (Cons x xs)
  from Cons.prems have x: "x \<noteq> Subscribe l" and xs: "Subscribe l \<notin> set xs"
    by auto
  note here = step_unsubscribed [OF Cons.prems(1) x]
  from Cons.IH [OF here(1) xs] here(2) show ?case
    by (simp only: run_Cons) (simp add: received_def)
qed

lemma count_list_filter_other:
  "k \<noteq> l \<Longrightarrow> count_list (filter (\<lambda>x. x \<noteq> l) xs) k = count_list xs k"
  by (induction xs) simp_all

section \<open>Properties of the manager\<close>




text \<open>
  Claim C2. When the profile query answers with the record of the session user
  (no error, a row whose id is the session user's id, as the filter
  \<^verbatim>\<open>.eq('id', user.id)\<close> selects it), then after a signed-in event, and after
  a login or a registration that the provider accepts, the state has
  \<^verbatim>\<open>isOnboardingComplete\<close>, the user's id is the session user's id, and the user's
  name is the profile's name, or the session's email (the empty string when the
  session has none) when the profile's name is null or empty.
\<close>

theorem sign_in_with_profile:
  assumes "sel_data r = Some p" and "sel_error r = None" and "pr_id p = su_id u"
    and "auth_user a = Some u" and "auth_error a = None"
  shows "resolvedFromProfile
           (authState (fst (onAuthStateChange m ''SIGNED_IN'' (Some u) (Resolved r)))) u p \<and>
         resolvedFromProfile
           (authState (fst (login m email password (Resolved a) (Resolved r)))) u p \<and>
         resolvedFromProfile
           (authState (fst (register m userData (Resolved a) (Resolved pe) (Resolved r)))) u p"
proof -
  have ok: "\<not> fetch_failed (sel_error r)"
    using assms(2) by (simp add: fetch_failed_def)
  have "resolvedFromProfile (authState (fst (setUserFromSession m u (Resolved r)))) u p"
    using assms(3)
    by (simp add: setUserFromSession_found [OF assms(1) ok] resolvedFromProfile_def
        userFromProfile_def js_or_name name_or_email)
  then show ?thesis
    by (simp add: signed_in_event login_resolves [OF assms(5) assms(4)]
        register_resolves [OF assms(5) assms(4)])
qed

theorem sign_in_with_profile_witness:
  "resolvedFromProfile
     (authState (fst (onAuthStateChange initial ''SIGNED_IN'' (Some ex_user) (Resolved ex_found))))
     ex_user ex_profile \<and>
   resolvedFromProfile
     (authState (fst (login initial ''a@x.com'' ''secret'' (Resolved ex_signed_up) (Resolved ex_found))))
     ex_user ex_profile \<and>
   map_option au_name
     (user (authState (fst (login initial ''a@x.com'' ''secret'' (Resolved ex_signed_up)
        (Resolved ex_found))))) = Some ''Ann''"
proof -
  have h: "sel_data ex_found = Some ex_profile" "sel_error ex_found = None"
    "pr_id ex_profile = su_id ex_user" "auth_user ex_signed_up = Some ex_user"
    "auth_error ex_signed_up = None"
    by (simp_all add: ex_found_def ex_profile_def ex_user_def ex_signed_up_def)
  from sign_in_with_profile [OF h, of initial "''a@x.com''" "''secret''"]
  show ?thesis
    by (simp add: resolvedFromProfile_def name_or_def ex_profile_def)
qed

text \<open>
  Claim C3, as stated, fails: for a session user without metadata whose email is
  \<^verbatim>\<open>a@x.com\<close> and a not-found answer of the profile query, the name of the
  resulting user is the email, not the empty string.
\<close>

theorem sign_in_without_profile_counterexample:
  "\<not> claimed_resolvedFromMetadata
        (authState (fst (onAuthStateChange initial ''SIGNED_IN'' (Some ex_user)
           (Resolved ex_not_found)))) ex_user \<and>
   map_option au_name
     (user (authState (fst (onAuthStateChange initial ''SIGNED_IN'' (Some ex_user)
        (Resolved ex_not_found))))) = Some ''a@x.com''"
  by (simp add: claimed_resolvedFromMetadata_def onAuthStateChange_def setUserFromSession_def
      fetch_failed_def ex_not_found_def ex_user_def userFromMetadata_def metadata_def
      metadata_or_empty_def js_or_def Let_def)

text \<open>
  Claim C3, amended. When the profile query answers with the not-found code and no
  row, a signed-in event leaves \<^verbatim>\<open>isOnboardingComplete == false\<close> and a user taken
  from the session: company, position and phone are the metadata entries, or the
  empty string; the name is the metadata entry \<^verbatim>\<open>full_name\<close>, or the session's
  email when that entry is missing or empty (the empty string when there is no
  email either); the role is \<^verbatim>\<open>user\<close>, department and avatar_url are null.
\<close>

theorem sign_in_without_profile:
  assumes "sel_data r = None" and "sel_error r = Some e" and "pg_code e = ''PGRST116''"
  shows "resolvedFromMetadata
           (authState (fst (onAuthStateChange m ''SIGNED_IN'' (Some u) (Resolved r)))) u"
proof -
  have ok: "\<not> fetch_failed (sel_error r)"
    using assms(2,3) by (simp add: fetch_failed_def)
  show ?thesis
    by (simp add: signed_in_event setUserFromSession_missing [OF assms(1) ok]
        resolvedFromMetadata_def userFromMetadata_def js_or_name name_or_email
        name_or_metadata)
qed

theorem sign_in_without_profile_witness:
  "resolvedFromMetadata
     (authState (fst (onAuthStateChange ex_session ''SIGNED_IN'' (Some ex_user)
        (Resolved ex_not_found)))) ex_user \<and>
   name_or (metadata ex_user ''full_name'') (email_or_empty ex_user) = ''a@x.com''"
proof -
  have h: "sel_data ex_not_found = None"
    "sel_error ex_not_found = Some \<lparr>pg_code = ''PGRST116'', pg_message = ''no rows''\<rparr>"
    "pg_code \<lparr>pg_code = ''PGRST116'', pg_message = ''no rows''\<rparr> = ''PGRST116''"
    by (simp_all add: ex_not_found_def)
  from sign_in_without_profile [OF h, of ex_session ex_user]
  show ?thesis
    by (simp add: name_or_def metadata_def email_or_empty_def ex_user_def)
qed

text \<open>
  Claim C4. When the profile query answers with an error whose code is not the
  not-found code, \<^verbatim>\<open>setUserFromSession\<close> leaves the manager as it was (state and
  subscriber list) and calls no listener; so does the signed-in event that runs it.
\<close>

theorem fetch_error_aborts:
  assumes "sel_error r = Some e" and "pg_code e \<noteq> ''PGRST116''"
  shows "fst (setUserFromSession m u (Resolved r)) = m \<and>
         calls (snd (setUserFromSession m u (Resolved r))) = [] \<and>
         fst (onAuthStateChange m ''SIGNED_IN'' (Some u) (Resolved r)) = m \<and>
         calls (snd (onAuthStateChange m ''SIGNED_IN'' (Some u) (Resolved r))) = []"
proof -
  have "fetch_failed (sel_error r)"
    using assms by (simp add: fetch_failed_def)
  then show ?thesis
    by (simp add: signed_in_event setUserFromSession_failed calls_simps)
qed

theorem fetch_error_aborts_witness:
  "fst (setUserFromSession ex_session ex_user (Resolved ex_fetch_error)) = ex_session \<and>
   calls (snd (setUserFromSession ex_session ex_user (Resolved ex_fetch_error))) = [] \<and>
   listeners ex_session = [1, 2]"
proof -
  have h: "sel_error ex_fetch_error = Some \<lparr>pg_code = ''500'', pg_message = ''unavailable''\<rparr>"
    "pg_code \<lparr>pg_code = ''500'', pg_message = ''unavailable''\<rparr> \<noteq> ''PGRST116''"
    by (simp_all add: ex_fetch_error_def)
  from fetch_error_aborts [OF h, of ex_session ex_user]
  show ?thesis
    by (simp add: ex_session_def)
qed

text \<open>
  Claim C5. From every state, \<^verbatim>\<open>logout\<close> answers success when the provider
  reports no error, and then the state is the empty one and every subscriber is
  called with it, in the order of the list; when the provider reports an error
  (or the call rejects) it answers failure, the manager is as before and no
  listener is called.
\<close>

theorem logout_clears_or_keeps:
  "success (fst (snd (logout m (Resolved None)))) \<and>
   authState (fst (logout m (Resolved None))) =
     \<lparr>user = None, isAuthenticated = False, isOnboardingComplete = False\<rparr> \<and>
   calls (snd (snd (logout m (Resolved None)))) =
     map (\<lambda>l. (l, \<lparr>user = None, isAuthenticated = False, isOnboardingComplete = False\<rparr>))
       (listeners m) \<and>
   \<not> success (fst (snd (logout m (Resolved (Some msg))))) \<and>
   error (fst (snd (logout m (Resolved (Some msg))))) = Some msg \<and>
   fst (logout m (Resolved (Some msg))) = m \<and>
   calls (snd (snd (logout m (Resolved (Some msg))))) = [] \<and>
   \<not> success (fst (snd (logout m (Rejected e)))) \<and>
   fst (logout m (Rejected e)) = m \<and>
   calls (snd (snd (logout m (Rejected e)))) = []"
  by (simp add: logout_def clearAuthState_def notifyListeners_def Let_def ok_def failure_def
      calls_simps calls_notify)

text \<open>
  Claim C6, as stated, fails: for the user named Ann and the update
  \<^verbatim>\<open>{name: ''}\<close>, the store accepts the update and the record sent to it keeps the
  name Ann, where the merge of the update over the current values has the empty
  name.
\<close>

theorem updateProfile_persists_merge_counterexample:
  "success (fst (snd (updateProfile ex_session ex_clear_name ex_now (Resolved None)))) \<and>
   updates_sent (snd (snd (updateProfile ex_session ex_clear_name ex_now (Resolved None)))) \<noteq>
     [(''u1'', claimed_updatePayload ex_ann ex_clear_name ex_now)] \<and>
   map (\<lambda>x. pu_full_name (snd x))
     (updates_sent (snd (snd (updateProfile ex_session ex_clear_name ex_now (Resolved None))))) =
     [''Ann''] \<and>
   pu_full_name (claimed_updatePayload ex_ann ex_clear_name ex_now) = []"
  by (simp add: updateProfile_alone ex_session_def ex_ann_def ex_clear_name_def no_updates_def
      updatePayload_def claimed_updatePayload_def js_or_def js_or_null_def Let_def
      notifyListeners_def updates_sent_simps)

text \<open>
  Claim C6, amended. When a user is present and the store accepts the update,
  \<^verbatim>\<open>updateProfile\<close> sends one update, keyed by the current user's id, of exactly
  the fields full_name, role, department, avatar_url and updated_at: each of the
  four is the update's value when the update has the field and the value is not
  empty or null, the current value otherwise; updated_at is the time stamp.
  Locally every field that the update has, persisted or not, replaces the
  current one; the two flags and the subscriber list stay; every subscriber is
  called with the new state, in the order of the list; the result is success
  with the merged user.
\<close>

theorem updateProfile_success:
  assumes "user (authState m) = Some cu"
  shows "updates_sent (snd (snd (updateProfile m upd now (Resolved None)))) =
           [(au_id cu,
             \<lparr>pu_full_name = name_or (p_name upd) (au_name cu),
              pu_role = (case p_role upd of Some v \<Rightarrow> v | None \<Rightarrow> au_role cu),
              pu_department = nullable_or (p_department upd) (au_department cu),
              pu_avatar_url = nullable_or (p_avatar_url upd) (au_avatar_url cu),
              pu_updated_at = now\<rparr>)] \<and>
         authState (fst (updateProfile m upd now (Resolved None))) =
           \<lparr>user = Some
              \<lparr>au_id = (case p_id upd of Some v \<Rightarrow> v | None \<Rightarrow> au_id cu),
               au_email = (case p_email upd of Some v \<Rightarrow> v | None \<Rightarrow> au_email cu),
               au_name = (case p_name upd of Some v \<Rightarrow> v | None \<Rightarrow> au_name cu),
               au_company = (case p_company upd of Some v \<Rightarrow> v | None \<Rightarrow> au_company cu),
               au_position = (case p_position upd of Some v \<Rightarrow> v | None \<Rightarrow> au_position cu),
               au_phone = (case p_phone upd of Some v \<Rightarrow> v | None \<Rightarrow> au_phone cu),
               au_role = (case p_role upd of Some v \<Rightarrow> v | None \<Rightarrow> au_role cu),
               au_department =
                 (case p_department upd of Some v \<Rightarrow> v | None \<Rightarrow> au_department cu),
               au_avatar_url =
                 (case p_avatar_url upd of Some v \<Rightarrow> v | None \<Rightarrow> au_avatar_url cu)\<rparr>,
            isAuthenticated = isAuthenticated (authState m),
            isOnboardingComplete = isOnboardingComplete (authState m)\<rparr> \<and>
         listeners (fst (updateProfile m upd now (Resolved None))) = listeners m \<and>
         calls (snd (snd (updateProfile m upd now (Resolved None)))) =
           map (\<lambda>l. (l, authState (fst (updateProfile m upd now (Resolved None)))))
             (listeners m) \<and>
         success (fst (snd (updateProfile m upd now (Resolved None)))) \<and>
         data (fst (snd (updateProfile m upd now (Resolved None)))) =
           user (authState (fst (updateProfile m upd now (Resolved None))))"
  by (simp add: updateProfile_succeeds [OF assms] updatePayload_def mergeUser_def spread_def
      js_or_name nullable_or updates_sent_simps updates_sent_notify calls_simps calls_notify)

theorem updateProfile_success_witness:
  "map (\<lambda>x. pu_role (snd x))
     (updates_sent (snd (snd (updateProfile ex_session ex_promote ex_now (Resolved None))))) =
     [RoleAdmin] \<and>
   map_option au_role (data (fst (snd (updateProfile ex_session ex_promote ex_now (Resolved None)))))
     = Some RoleAdmin \<and>
   map_option au_phone (data (fst (snd (updateProfile ex_session ex_promote ex_now (Resolved None)))))
     = Some ''777'' \<and>
   map fst (calls (snd (snd (updateProfile ex_session ex_promote ex_now (Resolved None))))) = [1, 2]"
proof -
  have h: "user (authState ex_session) = Some ex_ann"
    by (simp add: ex_session_def)
  from updateProfile_success [OF h, of ex_promote ex_now]
  show ?thesis
    by (simp add: ex_promote_def no_updates_def ex_session_def)
qed

text \<open>
  Claim C7. Without a current user \<^verbatim>\<open>updateProfile\<close> answers failure with the
  "user not found" message, sends nothing, calls no listener and leaves the
  manager as it was; when the store answers the update with an error it answers
  failure with the error's message, the manager is as it was and no listener is
  called.
\<close>

theorem updateProfile_fails_atomically:
  "(user (authState m) = None \<longrightarrow>
      updateProfile m upd now resp =
        (m, \<lparr>success = False, error = Some MSG_USER_NOT_FOUND, data = None\<rparr>, [])) \<and>
   fst (updateProfile m upd now (Resolved (Some pe))) = m \<and>
   \<not> success (fst (snd (updateProfile m upd now (Resolved (Some pe))))) \<and>
   (user (authState m) \<noteq> None \<longrightarrow>
      error (fst (snd (updateProfile m upd now (Resolved (Some pe))))) = Some (pg_message pe)) \<and>
   calls (snd (snd (updateProfile m upd now (Resolved (Some pe))))) = []"
  by (simp add: updateProfile_alone dataFailure_def calls_simps split: option.split)

theorem updateProfile_fails_atomically_witness:
  "updateProfile initial ex_promote ex_now (Resolved None) =
     (initial, \<lparr>success = False, error = Some MSG_USER_NOT_FOUND, data = None\<rparr>, []) \<and>
   fst (updateProfile ex_session ex_promote ex_now (Resolved (Some ex_insert_error))) = ex_session \<and>
   error (fst (snd (updateProfile ex_session ex_promote ex_now (Resolved (Some ex_insert_error)))))
     = Some ''unavailable'' \<and>
   calls (snd (snd (updateProfile ex_session ex_promote ex_now (Resolved (Some ex_insert_error)))))
     = [] \<and>
   listeners ex_session = [1, 2]"
  using updateProfile_fails_atomically [of initial ex_promote ex_now "Resolved None" ex_insert_error]
    updateProfile_fails_atomically [of ex_session ex_promote ex_now "Resolved None" ex_insert_error]
  by (simp add: initial_def emptyAuthState_def ex_session_def ex_insert_error_def)

text \<open>
  Claim C8, as stated, fails: when the sign-up succeeds, the insert fails and the
  profile query that follows fails as well (the store is unavailable), the
  registration answers success and the state is still the initial one, with
  \<^verbatim>\<open>isAuthenticated == false\<close>.
\<close>

theorem register_insert_failure_counterexample:
  "success (fst (snd (register initial ex_data (Resolved ex_signed_up)
      (Resolved (Some ex_insert_error)) (Resolved ex_fetch_error)))) \<and>
   \<not> isAuthenticated (authState (fst (register initial ex_data (Resolved ex_signed_up)
      (Resolved (Some ex_insert_error)) (Resolved ex_fetch_error))))"
  by (simp add: register_def ex_signed_up_def ex_fetch_error_def setUserFromSession_def
      fetch_failed_def ok_def initial_def emptyAuthState_def)

text \<open>
  Claim C8, amended. When the sign-up succeeds with a user and the insert of the
  profile answers with an error, the registration answers success and the error
  is logged; the state has \<^verbatim>\<open>isAuthenticated == true\<close> when the profile query that
  follows answers without an error or with the not-found code, and the manager
  is left as it was when that query answers with another error.
\<close>

theorem register_survives_insert_failure:
  assumes "auth_error a = None" and "auth_user a = Some u"
  shows "success (fst (snd (register m d (Resolved a) (Resolved (Some pe)) q))) \<and>
         ConsoleError ''Profile creation error:''
           \<in> set (snd (snd (register m d (Resolved a) (Resolved (Some pe)) q))) \<and>
         (sel_error r = None \<or> map_option pg_code (sel_error r) = Some ''PGRST116'' \<longrightarrow>
            isAuthenticated
              (authState (fst (register m d (Resolved a) (Resolved (Some pe)) (Resolved r))))) \<and>
         (sel_error r \<noteq> None \<and> map_option pg_code (sel_error r) \<noteq> Some ''PGRST116'' \<longrightarrow>
            fst (register m d (Resolved a) (Resolved (Some pe)) (Resolved r)) = m)"
proof -
  have reg: "fst (register m d (Resolved a) (Resolved (Some pe)) q) = fst (setUserFromSession m u q)"
    "fst (snd (register m d (Resolved a) (Resolved (Some pe)) q)) = ok" for q
    using register_resolves [OF assms] by simp_all
  have logged: "ConsoleError ''Profile creation error:''
      \<in> set (snd (snd (register m d (Resolved a) (Resolved (Some pe)) q)))"
    using assms by (simp add: register_def split_beta)
  have resolved: "isAuthenticated (authState (fst (setUserFromSession m u (Resolved r))))"
    if "sel_error r = None \<or> map_option pg_code (sel_error r) = Some ''PGRST116''"
    using that
    by (auto simp add: setUserFromSession_def fetch_failed_def Let_def split: option.split)
  have aborted: "fst (setUserFromSession m u (Resolved r)) = m"
    if "sel_error r \<noteq> None \<and> map_option pg_code (sel_error r) \<noteq> Some ''PGRST116''"
    using that
    by (auto simp add: setUserFromSession_def fetch_failed_def)
  from logged resolved aborted show ?thesis
    by (simp add: reg ok_def)
qed

theorem register_survives_insert_failure_witness:
  "success (fst (snd (register initial ex_data (Resolved ex_signed_up)
      (Resolved (Some ex_insert_error)) (Resolved ex_not_found)))) \<and>
   isAuthenticated (authState (fst (register initial ex_data (Resolved ex_signed_up)
      (Resolved (Some ex_insert_error)) (Resolved ex_not_found)))) \<and>
   fst (register initial ex_data (Resolved ex_signed_up)
      (Resolved (Some ex_insert_error)) (Resolved ex_fetch_error)) = initial"
proof -
  have h: "auth_error ex_signed_up = None" "auth_user ex_signed_up = Some ex_user"
    by (simp_all add: ex_signed_up_def)
  from register_survives_insert_failure [OF h, of initial ex_data ex_insert_error
      "Resolved ex_not_found" ex_not_found]
    register_survives_insert_failure [OF h, of initial ex_data ex_insert_error
      "Resolved ex_fetch_error" ex_fetch_error]
  show ?thesis
    by (simp add: ex_not_found_def ex_fetch_error_def)
qed

text \<open>
  Claim C9. The closure returned by \<^verbatim>\<open>subscribe(l)\<close> removes the listener \<open>l\<close>
  from the subscriber list and nothing else: every other listener keeps its
  entries and the order of the list stays. After the closure has run, in every
  history of operations in which \<open>l\<close> is not subscribed again, \<open>l\<close> is never
  in the list and is never called. \<^verbatim>\<open>subscribe\<close> appends, so the list is in
  registration order, and whenever an operation notifies, it calls exactly the
  listeners of the list, each once, in that order, with the new state.
\<close>

theorem unsubscribe_stops_notifications:
  assumes "Subscribe l \<notin> set ops"
  shows "l \<notin> set (listeners (unsubscribe m l)) \<and>
         (\<forall>k. k \<noteq> l \<longrightarrow>
            count_list (listeners (unsubscribe m l)) k = count_list (listeners m) k) \<and>
         subseq (listeners (unsubscribe m l)) (listeners m) \<and>
         authState (unsubscribe m l) = authState m \<and>
         l \<notin> set (listeners (fst (run (unsubscribe m l) ops))) \<and>
         received l (snd (run (unsubscribe m l) ops)) = [] \<and>
         listeners (subscribe m k') = listeners m @ [k'] \<and>
         (calls (snd (step m x)) = [] \<or>
          calls (snd (step m x)) = map (\<lambda>k. (k, authState (fst (step m x)))) (listeners m))"
proof -
  have gone: "l \<notin> set (listeners (unsubscribe m l))"
    by (simp add: unsubscribe_def)
  have others: "\<forall>k. k \<noteq> l \<longrightarrow>
      count_list (listeners (unsubscribe m l)) k = count_list (listeners m) k"
    by (simp add: unsubscribe_def count_list_filter_other)
  have order: "subseq (listeners (unsubscribe m l)) (listeners m)"
    by (simp add: unsubscribe_def)
  have state: "authState (unsubscribe m l) = authState m"
    by (simp add: unsubscribe_def)
  have pushed: "listeners (subscribe m k') = listeners m @ [k']"
    by (simp add: subscribe_def)
  from run_unsubscribed [OF gone assms] gone others order state pushed step_calls [of m x]
  show ?thesis
    by blast
qed

theorem unsubscribe_stops_notifications_witness:
  "listeners (unsubscribe ex_session 1) = [2] \<and>
   received 1 (snd (run (unsubscribe ex_session 1)
     [Logout (Resolved None), AuthStateChange ''SIGNED_IN'' (Some ex_user) (Resolved ex_found)]))
     = [] \<and>
   map fst (calls (snd (run (unsubscribe ex_session 1)
     [Logout (Resolved None), AuthStateChange ''SIGNED_IN'' (Some ex_user) (Resolved ex_found)])))
     = [2, 2] \<and>
   map fst (calls (snd (step ex_session (Logout (Resolved None))))) = [1, 2]"
proof -
  have h: "Subscribe 1 \<notin> set
     [Logout (Resolved None), AuthStateChange ''SIGNED_IN'' (Some ex_user) (Resolved ex_found)]"
    by simp
  have ev: "calls (snd (run (unsubscribe ex_session 1)
     [Logout (Resolved None), AuthStateChange ''SIGNED_IN'' (Some ex_user) (Resolved ex_found)]))
      = [(2, emptyAuthState),
         (2, \<lparr>user = Some (userFromProfile ex_profile ex_user), isAuthenticated = True,
               isOnboardingComplete = True\<rparr>)]"
    by (simp add: unsubscribe_def ex_session_def logout_def clearAuthState_def
        notifyListeners_def onAuthStateChange_def setUserFromSession_def fetch_failed_def
        ex_found_def Let_def calls_simps emptyAuthState_def)
  have lo: "calls (snd (step ex_session (Logout (Resolved None)))) =
      [(1, emptyAuthState), (2, emptyAuthState)]"
    by (simp add: ex_session_def logout_def clearAuthState_def notifyListeners_def Let_def
        calls_simps emptyAuthState_def)
  have ls: "listeners (unsubscribe ex_session 1) = [2]"
    by (simp add: unsubscribe_def ex_session_def)
  have quiet: "received 1 (snd (run (unsubscribe ex_session 1)
     [Logout (Resolved None), AuthStateChange ''SIGNED_IN'' (Some ex_user) (Resolved ex_found)]))
      = []"
    using unsubscribe_stops_notifications [OF h, of ex_session 0 "Subscribe 0"] by blast
  show ?thesis
    by (simp only: ls quiet ev lo) simp
qed




end
